theory Spec2Isabelle
  imports Complex_Main
begin

section \<open>Python values and the built-in functions the program calls\<close>

text \<open>
  A \<open>str\<close> is a \<open>string\<close> whose characters are the code points below 256. The
  exceptions are the classes the program can meet; all of them derive from
  \<open>Exception\<close>.
\<close>

datatype exn =
    IndexError | ValueError | TypeError | KeyError | NameError | AttributeError
  | UnicodeDecodeError | SerialException | SerialTimeoutException

text \<open>
  A \<open>float\<close> is a finite binary64 value, kept as the rational it denotes, an infinity
  or the NaN. The two zeros are one value, as under Python's \<open>==\<close>.
\<close>

datatype pyfloat = Fin rat | PInf | NInf | NaN

fun le :: "pyfloat \<Rightarrow> pyfloat \<Rightarrow> bool" where
  "le NaN _ = False"
| "le _ NaN = False"
| "le NInf _ = True"
| "le _ PInf = True"
| "le (Fin a) (Fin b) = (a \<le> b)"
| "le _ _ = False"

fun lt :: "pyfloat \<Rightarrow> pyfloat \<Rightarrow> bool" where
  "lt NaN _ = False"
| "lt _ NaN = False"
| "lt PInf _ = False"
| "lt _ NInf = False"
| "lt (Fin a) (Fin b) = (a < b)"
| "lt _ _ = True"

subsection \<open>Rounding to binary64\<close>

definition pow2 :: "int \<Rightarrow> rat" where
  "pow2 e = (if 0 \<le> e then 2 ^ nat e else 1 / 2 ^ nat (- e))"

definition pow10 :: "int \<Rightarrow> rat" where
  "pow10 e = (if 0 \<le> e then 10 ^ nat e else 1 / 10 ^ nat (- e))"

text \<open>The number of binary digits of a positive integer.\<close>

function bitlen :: "int \<Rightarrow> int" where
  "bitlen n = (if n \<le> 0 then 0 else 1 + bitlen (n div 2))"
  by pat_completeness auto
termination
  by (relation "measure nat") auto

text \<open>The exponent \<open>k\<close> with \<open>2 ^ k \<le> a < 2 ^ (k + 1)\<close>, for a positive \<open>a\<close>.\<close>

definition ilog2 :: "rat \<Rightarrow> int" where
  "ilog2 a =
     (let (p, q) = quotient_of a;
          k = bitlen p - bitlen q
      in if pow2 k \<le> a then k else k - 1)"

definition round_half_even :: "rat \<Rightarrow> int" where
  "round_half_even x =
     (let f = \<lfloor>x\<rfloor>; r = x - of_int f
      in if r < 1 / 2 then f
         else if 1 / 2 < r then f + 1
         else if even f then f else f + 1)"

text \<open>
  The binary64 value nearest to a rational, ties to even: 53 significant bits \<open>m\<close>,
  the least exponent \<open>e\<close> that of the subnormals, and overflow to an infinity when the
  rounded value reaches \<open>2 ^ 1024\<close>, that is \<open>2 ^ 53 * 2 ^ 971\<close>.
\<close>

definition b64 :: "rat \<Rightarrow> pyfloat" where
  "b64 q =
     (if q = 0 then Fin 0
      else let a = \<bar>q\<bar>;
               e = max (ilog2 a - 52) (- 1074);
               m = round_half_even (a / pow2 e);
               v = of_int m * pow2 e
           in if 971 < e \<or> (e = 971 \<and> 2 ^ 53 \<le> m) then (if 0 < q then PInf else NInf)
              else Fin (if 0 < q then v else - v))"

subsection \<open>Strings\<close>

definition code :: "char \<Rightarrow> int" where
  "code c = of_char c"

text \<open>The characters \<open>str.strip()\<close> removes, and those \<open>float\<close> and \<open>int\<close> skip.\<close>

definition isspace :: "char \<Rightarrow> bool" where
  "isspace c = (code c \<in> {9, 10, 11, 12, 13, 28, 29, 30, 31, 32, 133, 160})"

definition isspace_num :: "char \<Rightarrow> bool" where
  "isspace_num c = (code c \<in> {9, 10, 11, 12, 13, 32, 133, 160})"

definition strip_by :: "(char \<Rightarrow> bool) \<Rightarrow> string \<Rightarrow> string" where
  "strip_by P s = rev (dropWhile P (rev (dropWhile P s)))"

definition strip :: "string \<Rightarrow> string" where
  "strip s = strip_by isspace s"

text \<open>\<open>s.split(c)\<close> for a one-character separator: never the empty list.\<close>

fun split :: "char \<Rightarrow> string \<Rightarrow> string list" where
  "split c [] = [[]]"
| "split c (x # xs) =
     (if x = c then [] # split c xs
      else (case split c xs of [] \<Rightarrow> [[x]] | w # ws \<Rightarrow> (x # w) # ws))"

definition startswith :: "string \<Rightarrow> string \<Rightarrow> bool" where
  "startswith s p = (take (length p) s = p)"

text \<open>\<open>xs[i]\<close> for a non-negative index.\<close>

definition index :: "'a list \<Rightarrow> nat \<Rightarrow> exn + 'a" where
  "index xs i = (if i < length xs then Inr (xs ! i) else Inl IndexError)"

definition bindE :: "exn + 'a \<Rightarrow> ('a \<Rightarrow> exn + 'b) \<Rightarrow> exn + 'b" where
  "bindE m f = (case m of Inl e \<Rightarrow> Inl e | Inr x \<Rightarrow> f x)"

subsection \<open>Numbers from strings\<close>

definition is_digit :: "char \<Rightarrow> bool" where
  "is_digit c = (48 \<le> code c \<and> code c \<le> 57)"

text \<open>\<open>str.isdigit()\<close>: the superscripts one, two and three count as digits.\<close>

definition isdigit :: "string \<Rightarrow> bool" where
  "isdigit s = (s \<noteq> [] \<and> list_all (\<lambda>c. is_digit c \<or> code c \<in> {178, 179, 185}) s)"

definition digits_val :: "string \<Rightarrow> int" where
  "digits_val ds = foldl (\<lambda>a c. 10 * a + (code c - 48)) 0 ds"

text \<open>
  An underscore is accepted between two digits only; \<open>prev\<close> is the character before.
\<close>

fun underscores_ok :: "char \<Rightarrow> string \<Rightarrow> bool" where
  "underscores_ok prev [] = (prev \<noteq> CHR ''_'')"
| "underscores_ok prev (c # cs) =
     ((if c = CHR ''_'' then is_digit prev
       else if prev = CHR ''_'' then is_digit c else True)
      \<and> underscores_ok c cs)"

definition lower :: "char \<Rightarrow> char" where
  "lower c = (if 65 \<le> code c \<and> code c \<le> 90 then char_of (code c + 32) else c)"

definition split_sign :: "string \<Rightarrow> bool \<times> string" where
  "split_sign s =
     (case s of
        [] \<Rightarrow> (False, [])
      | c # t \<Rightarrow> if c = CHR ''-'' then (True, t)
                 else if c = CHR ''+'' then (False, t) else (False, s))"

definition exponent :: "string \<Rightarrow> int option" where
  "exponent r =
     (case r of
        [] \<Rightarrow> Some 0
      | c # t \<Rightarrow>
          if c = CHR ''e'' \<or> c = CHR ''E'' then
            (let (neg, ds) = split_sign t
             in if ds \<noteq> [] \<and> list_all is_digit ds
                then Some (if neg then - digits_val ds else digits_val ds)
                else None)
          else None)"

text \<open>
  \<open>digitpart ["." [digitpart]] [exponent]\<close> or \<open>"." digitpart [exponent]\<close>, read to
  the end of the string.
\<close>

definition number :: "string \<Rightarrow> rat option" where
  "number s =
     (let ip = takeWhile is_digit s; r1 = dropWhile is_digit s;
          (fp, r2) = (case r1 of
                        [] \<Rightarrow> ([], r1)
                      | c # t \<Rightarrow> if c = CHR ''.''
                                 then (takeWhile is_digit t, dropWhile is_digit t)
                                 else ([], r1))
      in if ip = [] \<and> fp = [] then None
         else (case exponent r2 of
                 None \<Rightarrow> None
               | Some ex \<Rightarrow>
                   Some (of_int (digits_val (ip @ fp)) * pow10 (ex - int (length fp)))))"

text \<open>\<open>float(s)\<close> for a string \<open>s\<close>.\<close>

definition py_float :: "string \<Rightarrow> exn + pyfloat" where
  "py_float s =
     (let t = strip_by isspace_num s
      in if \<not> underscores_ok (CHR 0x00) t then Inl ValueError
         else
           (let (neg, body) = split_sign (filter (\<lambda>c. c \<noteq> CHR ''_'') t);
                word = map lower body
            in if word = ''inf'' \<or> word = ''infinity'' then Inr (if neg then NInf else PInf)
               else if word = ''nan'' then Inr NaN
               else (case number body of
                       None \<Rightarrow> Inl ValueError
                     | Some q \<Rightarrow> Inr (b64 (if neg then - q else q)))))"

text \<open>
  \<open>int(s)\<close> for a string \<open>s\<close>, base ten, with the interpreter's default limit on the
  number of digits.
\<close>

definition int_max_str_digits :: nat where
  "int_max_str_digits = 4300"

definition py_int :: "string \<Rightarrow> exn + int" where
  "py_int s =
     (let t = strip_by isspace_num s
      in if \<not> underscores_ok (CHR 0x00) t then Inl ValueError
         else
           (let (neg, ds) = split_sign (filter (\<lambda>c. c \<noteq> CHR ''_'') t)
            in if ds = [] \<or> \<not> list_all is_digit ds \<or> int_max_str_digits < length ds
               then Inl ValueError
               else Inr (if neg then - digits_val ds else digits_val ds)))"

section \<open>The reading parsers\<close>

text \<open>
  A Reading is the dictionary the parsers build, in the order of its literal. Its
  values are floats, integers and, for one key, a string.
\<close>

datatype pyval = PFloat pyfloat | PInt int | PStr string

type_synonym reading = "(string \<times> pyval) list"

text \<open>\<open>d[k]\<close> on a Reading.\<close>

definition getitem :: "reading \<Rightarrow> string \<Rightarrow> exn + pyval" where
  "getitem d k = (case map_of d k of None \<Rightarrow> Inl KeyError | Some v \<Rightarrow> Inr v)"

text \<open>
  \<open>safe_float\<close>, the helper inside \<open>parse_reading\<close>: its handler takes
  \<open>ValueError\<close> only.
\<close>

definition safe_float :: "string \<Rightarrow> exn + pyfloat" where
  "safe_float value =
     (let value' = (if startswith value ''E'' \<or> startswith value ''e''
                    then CHR ''1'' # value else value)
      in case py_float value' of
           Inr x \<Rightarrow> Inr x
         | Inl e \<Rightarrow> if e = ValueError then Inr (Fin 0) else Inl e)"

text \<open>
  The list \<open>values\<close> of \<open>parse_reading\<close>: the data without line ends, the
  end-of-transmission character and blanks, without a leading \<open>RC\<close>, split at the commas.
\<close>

definition values_of :: "string \<Rightarrow> string list" where
  "values_of data =
     (let cleaned_data =
            strip (filter (\<lambda>c. c \<noteq> CHR 0x0A \<and> c \<noteq> CHR 0x0D \<and> c \<noteq> CHR 0x04 \<and> c \<noteq> CHR '' '') data);
          cleaned_data' =
            (if startswith cleaned_data ''RC'' then strip (drop 2 cleaned_data)
             else cleaned_data)
      in split (CHR '','') cleaned_data')"

text \<open>
  The three expressions of the dictionary literal:
  \<open>safe_float(values[i]) if len(values) > i else 0.0\<close>, the entry of the error code and
  the entry of the power supply mode.
\<close>

definition float_at :: "string list \<Rightarrow> nat \<Rightarrow> exn + pyfloat" where
  "float_at values i = (if i < length values then safe_float (values ! i) else Inr (Fin 0))"

definition error_code_at :: "string list \<Rightarrow> exn + pyval" where
  "error_code_at values =
     (if 11 < length values \<and> isdigit (values ! 11)
      then bindE (py_int (values ! 11)) (\<lambda>n. Inr (PInt n))
      else Inr (PInt 0))"

definition mode_at :: "string list \<Rightarrow> exn + pyval" where
  "mode_at values =
     (if 12 < length values \<and> values ! 12 \<noteq> []
      then bindE (py_int (values ! 12)) (\<lambda>n. Inr (PInt n))
      else Inr (PStr ''Unknown''))"

text \<open>The \<open>try\<close> block of \<open>parse_reading\<close>, then the function with its handler.\<close>

definition parse_reading_body :: "string \<Rightarrow> exn + reading" where
  "parse_reading_body data =
     (let values = values_of data
      in
       bindE (float_at values 0) (\<lambda>v0.
       bindE (float_at values 1) (\<lambda>v1.
       bindE (float_at values 2) (\<lambda>v2.
       bindE (float_at values 3) (\<lambda>v3.
       bindE (float_at values 4) (\<lambda>v4.
       bindE (float_at values 5) (\<lambda>v5.
       bindE (float_at values 6) (\<lambda>v6.
       bindE (float_at values 7) (\<lambda>v7.
       bindE (float_at values 8) (\<lambda>v8.
       bindE (float_at values 9) (\<lambda>v9.
       bindE (float_at values 10) (\<lambda>v10.
       bindE (error_code_at values) (\<lambda>v11.
       bindE (mode_at values) (\<lambda>v12.
       Inr [
          (''Cathode Current (A)'', PFloat v0),
          (''Discharge Current (A)'', PFloat v1),
          (''Discharge Voltage (V)'', PFloat v2),
          (''Beam Current (mA)'', PFloat v3),
          (''Beam Voltage (V)'', PFloat v4),
          (''Accelerator Current (mA)'', PFloat v5),
          (''Accelerator Voltage (V)'', PFloat v6),
          (''Emission Current (mA)'', PFloat v7),
          (''Neutralizer Filament Current (A)'', PFloat v8),
          (''HC Keeper Voltage (V)'', PFloat v9),
          (''HCN Keeper Voltage (V)'', PFloat v10),
          (''Fatal Error Code'', v11),
          (''Power Supply Mode'', v12)]))))))))))))))"

definition parse_reading :: "string \<Rightarrow> exn + reading option" where
  "parse_reading data =
     (case parse_reading_body data of
        Inr parsed_data \<Rightarrow> Inr (Some parsed_data)
      | Inl e \<Rightarrow> if e = IndexError \<or> e = ValueError then Inr None else Inl e)"

text \<open>
  \<open>parse_rh_reading\<close>: \<open>float(values[i])\<close> and \<open>int(values[i])\<close> with no guard on the
  length.
\<close>

definition rh_values_of :: "string \<Rightarrow> string list" where
  "rh_values_of data = split (CHR '' '') (strip data)"

definition float_of :: "string list \<Rightarrow> nat \<Rightarrow> exn + pyval" where
  "float_of values i = bindE (index values i) (\<lambda>s. bindE (py_float s) (\<lambda>x. Inr (PFloat x)))"

definition int_of :: "string list \<Rightarrow> nat \<Rightarrow> exn + pyval" where
  "int_of values i = bindE (index values i) (\<lambda>s. bindE (py_int s) (\<lambda>n. Inr (PInt n)))"

definition parse_rh_reading_body :: "string \<Rightarrow> exn + reading" where
  "parse_rh_reading_body data =
     (let values = rh_values_of data
      in
       bindE (index values 0) (\<lambda>v0. let time_values = split (CHR '':'') v0 in
       bindE (float_of values 1) (\<lambda>cathode_filament_current.
       bindE (float_of values 2) (\<lambda>discharge_current.
       bindE (float_of values 3) (\<lambda>discharge_voltage.
       bindE (int_of values 4) (\<lambda>beam_current.
       bindE (int_of values 5) (\<lambda>beam_voltage.
       bindE (int_of values 6) (\<lambda>accelerator_voltage.
       bindE (int_of values 7) (\<lambda>accelerator_current.
       bindE (int_of values 8) (\<lambda>emission_current.
       bindE (float_of values 9) (\<lambda>neutralizer_filament_current.
       bindE (index time_values 0) (\<lambda>t0.
       bindE (index time_values 1) (\<lambda>t1.
       bindE (index time_values 2) (\<lambda>t2.
       Inr [
          (''Time (Hr:Min:Sec)'', PStr (t0 @ '':'' @ t1 @ '':'' @ t2)),
          (''Cathode Filament Current (A)'', cathode_filament_current),
          (''Discharge Current (A)'', discharge_current),
          (''Discharge Voltage (V)'', discharge_voltage),
          (''Beam Current (mA)'', beam_current),
          (''Beam Voltage (V)'', beam_voltage),
          (''Accelerator Voltage (V)'', accelerator_voltage),
          (''Accelerator Current (mA)'', accelerator_current),
          (''Emission Current (mA)'', emission_current),
          (''Neutralizer Filament Current (A)'', neutralizer_filament_current)]))))))))))))))"

definition parse_rh_reading :: "string \<Rightarrow> exn + reading option" where
  "parse_rh_reading data =
     (case parse_rh_reading_body data of
        Inr parsed_data \<Rightarrow> Inr (Some parsed_data)
      | Inl e \<Rightarrow> if e = IndexError \<or> e = ValueError then Inr None else Inl e)"

text \<open>The keys of the eleven entries that \<open>safe_float\<close> fills, in the order of the fields.\<close>

definition float_keys :: "string list" where
  "float_keys =
     [''Cathode Current (A)'', ''Discharge Current (A)'', ''Discharge Voltage (V)'',
      ''Beam Current (mA)'', ''Beam Voltage (V)'', ''Accelerator Current (mA)'',
      ''Accelerator Voltage (V)'', ''Emission Current (mA)'',
      ''Neutralizer Filament Current (A)'', ''HC Keeper Voltage (V)'',
      ''HCN Keeper Voltage (V)'']"

section \<open>The serial ports and the state of the program\<close>

text \<open>
  A port keeps what was written to it and the bytes it will deliver: one element of
  \<open>incoming\<close> for each read, a read that raises or a chunk of bytes, a text or bytes
  that are no UTF-8. A read of a port with nothing to deliver gives the empty bytes.
\<close>

datatype bytes = Garbled | Text string

record serial =
  is_open :: bool
  written :: "string list"
  incoming :: "(exn + bytes) list"

definition decode :: "bytes \<Rightarrow> exn + string" where
  "decode b = (case b of Garbled \<Rightarrow> Inl UnicodeDecodeError | Text s \<Rightarrow> Inr s)"

text \<open>\<open>write\<close> and the reads \<open>read_all\<close>, \<open>read_until\<close>; a closed port raises.\<close>

definition ser_write :: "string \<Rightarrow> serial \<Rightarrow> exn + serial" where
  "ser_write data p =
     (if is_open p then Inr (p\<lparr>written := written p @ [data]\<rparr>) else Inl SerialException)"

definition ser_read :: "serial \<Rightarrow> (exn + bytes) \<times> serial" where
  "ser_read p =
     (if \<not> is_open p then (Inl SerialException, p)
      else (case incoming p of
              [] \<Rightarrow> (Inr (Text []), p)
            | x # xs \<Rightarrow> (x, p\<lparr>incoming := xs\<rparr>)))"

record MaxiGauge =
  port :: string
  baudrate :: nat
  timeout :: nat
  connection :: "serial option"

datatype button_state = NORMAL | DISABLED

text \<open>
  A message box, with its title and message; \<open>showerror_exn\<close> is the error box whose
  message ends with the text of an exception. The text of an entry is a string or a
  float in the format \<open>.3e\<close>.
\<close>

datatype dialog =
    showerror string string
  | showerror_exn string string exn
  | showwarning string string
  | showinfo string string

datatype entry_text = Literal string | Sci3 pyfloat

datatype callback = Read_values | Update_pressure

text \<open>
  The globals of the module, the widgets the callbacks touch, the message boxes shown,
  the callbacks registered with \<open>root.after\<close> and the clock. \<open>device\<close> is \<open>None\<close>
  while the name is unbound: \<open>connect_to_device\<close> binds it only when the port opens.
  \<open>maxigauge\<close> is bound by \<open>connect_to_maxigauge\<close> before the first tick, to an object
  or to \<open>None\<close>. Time is the time \<open>time.sleep\<close> takes. Console output, the plot and the
  log file are outside the state.
\<close>

record world =
  clock :: rat
  device :: "serial option"
  maxigauge :: "MaxiGauge option"
  source_on :: bool
  reading_active :: bool
  beam_on :: bool
  start_time :: "rat option"
  timestamps :: "string list"
  discharge_currents :: "pyval list"
  beam_currents :: "pyval list"
  pressure :: "pyfloat option list"
  pressure_entry :: entry_text
  source_button :: button_state
  source_button_text :: string
  beam_button :: button_state
  beam_button_text :: string
  reading_button_text :: string
  on_time_entry :: string
  off_time_entry :: string
  periods_entry :: string
  dialogs :: "dialog list"
  timers :: "(nat \<times> callback) list"

subsection \<open>Statements that change the state and may raise\<close>

type_synonym 'a stmt = "world \<Rightarrow> (exn + 'a) \<times> world"

definition return :: "'a \<Rightarrow> 'a stmt" where
  "return x w = (Inr x, w)"

definition raise :: "exn \<Rightarrow> 'a stmt" where
  "raise e w = (Inl e, w)"

definition bindS :: "'a stmt \<Rightarrow> ('a \<Rightarrow> 'b stmt) \<Rightarrow> 'b stmt" where
  "bindS m f w = (case m w of (Inl e, w') \<Rightarrow> (Inl e, w') | (Inr x, w') \<Rightarrow> f x w')"

definition seq :: "unit stmt \<Rightarrow> 'b stmt \<Rightarrow> 'b stmt" where
  "seq m n = bindS m (\<lambda>_. n)"

text \<open>\<open>try: m except Exception as e: h e\<close>.\<close>

definition catch :: "'a stmt \<Rightarrow> (exn \<Rightarrow> 'a stmt) \<Rightarrow> 'a stmt" where
  "catch m h w = (case m w of (Inl e, w') \<Rightarrow> h e w' | (Inr x, w') \<Rightarrow> (Inr x, w'))"

definition lift :: "exn + 'a \<Rightarrow> 'a stmt" where
  "lift r w = (r, w)"

definition modify :: "(world \<Rightarrow> world) \<Rightarrow> unit stmt" where
  "modify f w = (Inr (), f w)"

definition sleep :: "rat \<Rightarrow> unit stmt" where
  "sleep d = modify (\<lambda>w. w\<lparr>clock := clock w + d\<rparr>)"

definition show_dialog :: "dialog \<Rightarrow> unit stmt" where
  "show_dialog d = modify (\<lambda>w. w\<lparr>dialogs := dialogs w @ [d]\<rparr>)"

definition after :: "nat \<Rightarrow> callback \<Rightarrow> unit stmt" where
  "after ms f = modify (\<lambda>w. w\<lparr>timers := timers w @ [(ms, f)]\<rparr>)"

text \<open>
  \<open>not device or not device.is_open\<close>: the unbound name raises; a port object is true.
\<close>

definition device_not_open :: "bool stmt" where
  "device_not_open w =
     (case device w of None \<Rightarrow> (Inl NameError, w) | Some d \<Rightarrow> (Inr (\<not> is_open d), w))"

definition device_write :: "string \<Rightarrow> unit stmt" where
  "device_write data w =
     (case device w of
        None \<Rightarrow> (Inl NameError, w)
      | Some d \<Rightarrow> (case ser_write data d of
                     Inl e \<Rightarrow> (Inl e, w)
                   | Inr d' \<Rightarrow> (Inr (), w\<lparr>device := Some d'\<rparr>)))"

definition device_read_all :: "bytes stmt" where
  "device_read_all w =
     (case device w of
        None \<Rightarrow> (Inl NameError, w)
      | Some d \<Rightarrow> (case ser_read d of (r, d') \<Rightarrow> (r, w\<lparr>device := Some d'\<rparr>)))"

text \<open>
  \<open>not maxigauge or not maxigauge.connection or not maxigauge.connection.is_open\<close>, and
  inside the class \<open>not self.connection or not self.connection.is_open\<close>.
\<close>

definition gauge_not_connected :: "world \<Rightarrow> bool" where
  "gauge_not_connected w =
     (case maxigauge w of
        None \<Rightarrow> True
      | Some g \<Rightarrow> (case connection g of None \<Rightarrow> True | Some c \<Rightarrow> \<not> is_open c))"

section \<open>The class MaxiGauge\<close>

text \<open>
  The program has one instance, the global \<open>maxigauge\<close>; it is the \<open>self\<close> of the
  methods. A method called on \<open>None\<close> raises.
\<close>

definition connection_write :: "string \<Rightarrow> unit stmt" where
  "connection_write data w =
     (case maxigauge w of
        None \<Rightarrow> (Inl AttributeError, w)
      | Some g \<Rightarrow>
          (case connection g of
             None \<Rightarrow> (Inl AttributeError, w)
           | Some c \<Rightarrow> (case ser_write data c of
                          Inl e \<Rightarrow> (Inl e, w)
                        | Inr c' \<Rightarrow> (Inr (), w\<lparr>maxigauge := Some (g\<lparr>connection := Some c'\<rparr>)\<rparr>))))"

definition connection_read_until :: "bytes stmt" where
  "connection_read_until w =
     (case maxigauge w of
        None \<Rightarrow> (Inl AttributeError, w)
      | Some g \<Rightarrow>
          (case connection g of
             None \<Rightarrow> (Inl AttributeError, w)
           | Some c \<Rightarrow> (case ser_read c of
                          (r, c') \<Rightarrow> (r, w\<lparr>maxigauge := Some (g\<lparr>connection := Some c'\<rparr>)\<rparr>))))"

text \<open>
  The \<open>try\<close> block of \<open>send_command\<close>: the command, a pause, a first read whose result
  is dropped, the enquiry, a pause, and the second field of the reply.
\<close>

definition send_command_body :: "string \<Rightarrow> string option stmt" where
  "send_command_body command =
     seq (connection_write (command @ [CHR 0x0D, CHR 0x0A]))
    (seq (sleep (1 / 10))
    (bindS connection_read_until (\<lambda>first_byte.
     seq (connection_write [CHR 0x05, CHR 0x0D, CHR 0x0A])
    (seq (sleep (1 / 10))
    (bindS connection_read_until (\<lambda>reply.
     bindS (lift (decode reply)) (\<lambda>text.
     bindS (lift (index (split (CHR '','') (strip text)) 1)) (\<lambda>response.
     return (Some response)))))))))"

definition send_command :: "string \<Rightarrow> string option stmt" where
  "send_command command w =
     (case maxigauge w of
        None \<Rightarrow> (Inl AttributeError, w)
      | Some g \<Rightarrow>
          if (case connection g of None \<Rightarrow> True | Some c \<Rightarrow> \<not> is_open c)
          then (Inr None, w)
          else catch (send_command_body command)
                 (\<lambda>e. if e = SerialTimeoutException then return None else return None) w)"

text \<open>Decimal digits of an integer, for \<open>f"PR{sensor}"\<close> and the time stamps.\<close>

function digits_of :: "int \<Rightarrow> string" where
  "digits_of n =
     (if n < 10 then [char_of (48 + n)]
      else digits_of (n div 10) @ [char_of (48 + n mod 10)])"
  by pat_completeness auto
termination
  by (relation "measure nat") auto

definition str_int :: "int \<Rightarrow> string" where
  "str_int n = (if n < 0 then CHR ''-'' # digits_of (- n) else digits_of n)"

definition get_pressure :: "int \<Rightarrow> pyfloat option stmt" where
  "get_pressure sensor w =
     (case maxigauge w of
        None \<Rightarrow> (Inl AttributeError, w)
      | Some g \<Rightarrow>
          if \<not> (1 \<le> sensor \<and> sensor \<le> 6) then (Inr None, w)
          else if (case connection g of None \<Rightarrow> True | Some c \<Rightarrow> \<not> is_open c)
          then (Inr None, w)
          else bindS (send_command (''PR'' @ str_int sensor)) (\<lambda>response.
                 case response of
                   None \<Rightarrow> return None
                 | Some r \<Rightarrow> if r \<noteq> [] then bindS (lift (py_float r)) (\<lambda>x. return (Some x))
                             else return None) w)"

section \<open>The callbacks\<close>

definition get :: "(world \<Rightarrow> 'a) \<Rightarrow> 'a stmt" where
  "get f w = (Inr (f w), w)"

subsection \<open>\<open>update_pressure\<close>\<close>

text \<open>The float literals \<open>3e-4\<close> and \<open>10e-4\<close> of the interlock.\<close>

definition pressure_low :: pyfloat where
  "pressure_low = b64 (3 * pow10 (- 4))"

definition pressure_high :: pyfloat where
  "pressure_high = b64 (10 * pow10 (- 4))"

definition set_pressure_entry :: "entry_text \<Rightarrow> unit stmt" where
  "set_pressure_entry t = modify (\<lambda>w. w\<lparr>pressure_entry := t\<rparr>)"

definition set_source_button :: "button_state \<Rightarrow> unit stmt" where
  "set_source_button b = modify (\<lambda>w. w\<lparr>source_button := b\<rparr>)"

text \<open>
  The \<open>try\<close> block; its result tells whether the function has returned, which it does
  without a new timer when the gauge is not connected.
\<close>

definition update_pressure_body :: "bool stmt" where
  "update_pressure_body =
     bindS (get gauge_not_connected) (\<lambda>not_connected.
       if not_connected then
         seq (set_pressure_entry (Literal ''Not Connected''))
        (seq (set_source_button DISABLED)
             (return True))
       else
         bindS (get_pressure 3) (\<lambda>pressure_sensor_3.
         seq (case pressure_sensor_3 of
                Some x \<Rightarrow>
                  seq (set_pressure_entry (Sci3 x))
                      (if le pressure_low x \<and> le x pressure_high
                       then set_source_button NORMAL
                       else set_source_button DISABLED)
              | None \<Rightarrow>
                  seq (set_pressure_entry (Literal ''Invalid Data''))
                      (set_source_button DISABLED))
             (return False)))"

definition update_pressure :: "unit stmt" where
  "update_pressure =
     bindS (catch update_pressure_body
              (\<lambda>e. seq (set_pressure_entry (Literal ''Error''))
                   (seq (set_source_button DISABLED)
                        (return False))))
       (\<lambda>returned. if returned then return () else after 500 Update_pressure)"

subsection \<open>\<open>read_values\<close>\<close>

text \<open>\<open>s.index(c)\<close>, and the format \<open>02d\<close>.\<close>

definition str_index :: "string \<Rightarrow> char \<Rightarrow> exn + nat" where
  "str_index s c =
     (if c \<in> set s then Inr (length (takeWhile (\<lambda>x. x \<noteq> c) s)) else Inl ValueError)"

definition format_02d :: "int \<Rightarrow> string" where
  "format_02d n = (let s = str_int n in replicate (2 - length s) (CHR ''0'') @ s)"

text \<open>
  The block under \<open>if parsed_data\<close>, up to the four appends: the elapsed time as
  \<open>minutes:seconds\<close>, then one element for each list.
\<close>

definition append_reading :: "reading \<Rightarrow> pyfloat option \<Rightarrow> unit stmt" where
  "append_reading parsed_data pressure_sensor_3 =
     bindS (get start_time) (\<lambda>started.
     bindS (case started of
              None \<Rightarrow> raise TypeError
            | Some t \<Rightarrow> bindS (get clock) (\<lambda>now. return (now - t))) (\<lambda>elapsed_time.
     let minutes = \<lfloor>elapsed_time / 60\<rfloor>;
         elapsed_time_formatted =
           str_int minutes @ '':'' @ format_02d \<lfloor>elapsed_time - 60 * of_int minutes\<rfloor>
     in
     seq (modify (\<lambda>w. w\<lparr>timestamps := timestamps w @ [elapsed_time_formatted]\<rparr>))
    (bindS (lift (getitem parsed_data ''Discharge Current (A)'')) (\<lambda>d.
     seq (modify (\<lambda>w. w\<lparr>discharge_currents := discharge_currents w @ [d]\<rparr>))
    (bindS (lift (getitem parsed_data ''Beam Current (mA)'')) (\<lambda>b.
     seq (modify (\<lambda>w. w\<lparr>beam_currents := beam_currents w @ [b]\<rparr>))
         (modify (\<lambda>w. w\<lparr>pressure := pressure w @ [pressure_sensor_3]\<rparr>))))))))"

definition read_values_body :: "bool \<Rightarrow> unit stmt" where
  "read_values_body force_read =
     bindS device_not_open (\<lambda>not_open.
       if not_open then show_dialog (showerror ''Error'' ''Device is not connected.'')
       else
         bindS (bindS (get gauge_not_connected) (\<lambda>not_connected.
                  if not_connected then return None else get_pressure 3)) (\<lambda>pressure_sensor_3.
         bindS (get reading_active) (\<lambda>active.
           if \<not> active \<and> \<not> force_read then return ()
           else
             seq (device_write [CHR ''R'', CHR ''C'', CHR 0x0D])
            (seq (sleep (4 / 5))
            (bindS device_read_all (\<lambda>raw.
             bindS (lift (decode raw)) (\<lambda>text.
             bindS (let response = strip text
                    in if startswith response ''RC''
                       then bindS (lift (str_index response (CHR 0x0A)))
                              (\<lambda>i. return (strip (drop (i + 1) response)))
                       else return response) (\<lambda>response.
             bindS (lift (parse_reading response)) (\<lambda>parsed_data.
             seq (case parsed_data of
                    None \<Rightarrow> return ()
                  | Some r \<Rightarrow> if r \<noteq> [] then append_reading r pressure_sensor_3
                              else return ())
                 (if \<not> force_read then after 1000 Read_values else return ()))))))))))"

definition read_values :: "bool \<Rightarrow> unit stmt" where
  "read_values force_read = catch (read_values_body force_read) (\<lambda>e. return ())"

subsection \<open>The buttons\<close>

definition toggle_reading :: "unit stmt" where
  "toggle_reading =
     bindS (get reading_active) (\<lambda>active.
       if active then
         seq (modify (\<lambda>w. w\<lparr>reading_active := False\<rparr>))
             (modify (\<lambda>w. w\<lparr>reading_button_text := ''Start Reading Values''\<rparr>))
       else
         seq (modify (\<lambda>w. w\<lparr>reading_active := True\<rparr>))
        (seq (modify (\<lambda>w. w\<lparr>start_time := Some (clock w)\<rparr>))
        (seq (modify (\<lambda>w. w\<lparr>reading_button_text := ''Stop Reading Values''\<rparr>))
             (read_values False))))"

definition update_beam_button_state :: "unit stmt" where
  "update_beam_button_state =
     bindS (get source_on) (\<lambda>on.
       if on then modify (\<lambda>w. w\<lparr>beam_button := NORMAL\<rparr>)
       else modify (\<lambda>w. w\<lparr>beam_button := DISABLED\<rparr>))"

definition toggle_source :: "unit stmt" where
  "toggle_source =
     catch
       (bindS device_not_open (\<lambda>not_open.
          if not_open then show_dialog (showerror ''Error'' ''Device is not connected.'')
          else
            seq (bindS (get source_on) (\<lambda>on.
                   if on then
                     seq (device_write [CHR ''S'', CHR ''0'', CHR 0x0D])
                    (seq (sleep (1 / 2))
                    (bindS device_read_all (\<lambda>_.
                     seq (modify (\<lambda>w. w\<lparr>source_on := False\<rparr>))
                    (seq (modify (\<lambda>w. w\<lparr>source_button_text := ''Turn Source On''\<rparr>))
                         (show_dialog (showinfo ''Success'' ''Ion source turned off.''))))))
                   else
                     seq (device_write [CHR ''S'', CHR ''1'', CHR 0x0D])
                    (seq (sleep (1 / 2))
                    (bindS device_read_all (\<lambda>_.
                     seq (modify (\<lambda>w. w\<lparr>source_on := True\<rparr>))
                    (seq (modify (\<lambda>w. w\<lparr>source_button_text := ''Turn Source Off''\<rparr>))
                         (show_dialog (showinfo ''Success'' ''Ion source turned on.''))))))))
                update_beam_button_state))
       (\<lambda>e. show_dialog (showerror_exn ''Error'' ''Failed to toggle ion source: '' e))"


definition clear_data :: "unit stmt" where
  "clear_data =
     seq (modify (\<lambda>w. w\<lparr>timestamps := []\<rparr>))
    (seq (modify (\<lambda>w. w\<lparr>discharge_currents := []\<rparr>))
    (seq (modify (\<lambda>w. w\<lparr>beam_currents := []\<rparr>))
         (modify (\<lambda>w. w\<lparr>pressure := []\<rparr>))))"

subsection \<open>\<open>create_sequence\<close>\<close>

text \<open>
  The loops of the sequence end because the clock moves on. Relations between the state
  before and after a statement, kept by every part, are kept by the whole.
\<close>

definition preserves :: "(world \<Rightarrow> world \<Rightarrow> bool) \<Rightarrow> 'a stmt \<Rightarrow> bool" where
  "preserves R m = (\<forall>w. R w (snd (m w)))"

lemma preserves_return: "reflp R \<Longrightarrow> preserves R (return x)"
  by (simp add: preserves_def return_def reflp_def)

lemma preserves_raise: "reflp R \<Longrightarrow> preserves R (raise e)"
  by (simp add: preserves_def raise_def reflp_def)

lemma preserves_lift: "reflp R \<Longrightarrow> preserves R (lift r)"
  by (simp add: preserves_def lift_def reflp_def)

lemma preserves_get: "reflp R \<Longrightarrow> preserves R (get f)"
  by (simp add: preserves_def get_def reflp_def)

lemma preserves_device_not_open: "reflp R \<Longrightarrow> preserves R device_not_open"
  by (simp add: preserves_def device_not_open_def reflp_def split: option.splits)

lemma preserves_bindS:
  assumes "transp R" and "preserves R m" and "\<And>x. preserves R (f x)"
  shows "preserves R (bindS m f)"
proof -
  have "R w (snd (bindS m f w))" for w
  proof (cases "m w")
    case (Pair r w')
    from assms(2) Pair have 1: "R w w'" by (auto simp: preserves_def dest: spec [of _ w])
    show ?thesis
    proof (cases r)
      case (Inl e)
      with Pair 1 show ?thesis by (simp add: bindS_def)
    next
      case (Inr x)
      from assms(3) [of x] have "R w' (snd (f x w'))" by (simp add: preserves_def)
      with 1 assms(1) have "R w (snd (f x w'))" by (auto dest: transpD)
      with Pair Inr show ?thesis by (simp add: bindS_def)
    qed
  qed
  then show ?thesis by (simp add: preserves_def)
qed

lemma preserves_seq:
  "transp R \<Longrightarrow> preserves R m \<Longrightarrow> preserves R n \<Longrightarrow> preserves R (seq m n)"
  unfolding seq_def by (rule preserves_bindS)

lemma preserves_catch:
  assumes "transp R" and "preserves R m" and "\<And>e. preserves R (h e)"
  shows "preserves R (catch m h)"
proof -
  have "R w (snd (catch m h w))" for w
  proof (cases "m w")
    case (Pair r w')
    from assms(2) Pair have 1: "R w w'" by (auto simp: preserves_def dest: spec [of _ w])
    show ?thesis
    proof (cases r)
      case (Inr x)
      with Pair 1 show ?thesis by (simp add: catch_def)
    next
      case (Inl e)
      from assms(3) [of e] have "R w' (snd (h e w'))" by (simp add: preserves_def)
      with 1 assms(1) have "R w (snd (h e w'))" by (auto dest: transpD)
      with Pair Inl show ?thesis by (simp add: catch_def)
    qed
  qed
  then show ?thesis by (simp add: preserves_def)
qed

lemma preserves_modify: "(\<And>w. R w (f w)) \<Longrightarrow> preserves R (modify f)"
  by (simp add: preserves_def modify_def)

lemma preserves_if:
  "preserves R m \<Longrightarrow> preserves R n \<Longrightarrow> preserves R (if b then m else n)"
  by simp

lemma preserves_case_option:
  "preserves R m \<Longrightarrow> (\<And>y. preserves R (n y)) \<Longrightarrow>
   preserves R (case x of None \<Rightarrow> m | Some y \<Rightarrow> n y)"
  by (cases x) simp_all

lemmas preserves_structure =
  preserves_bindS preserves_seq preserves_catch preserves_if preserves_case_option
  preserves_return preserves_raise preserves_lift preserves_get preserves_device_not_open

text \<open>What the methods of the gauge and \<open>read_values\<close> keep, given what their parts keep.\<close>

lemma preserves_send_command:
  assumes R: "reflp R" "transp R"
    and p: "\<And>d. preserves R (connection_write d)" "preserves R connection_read_until"
      "preserves R (sleep (1 / 10))"
  shows "preserves R (send_command c)"
proof -
  have b: "preserves R (catch (send_command_body c)
             (\<lambda>e. if e = SerialTimeoutException then return None else return None))"
    unfolding send_command_body_def by (intro preserves_structure R p)
  show ?thesis
    unfolding preserves_def
  proof
    fix w
    from b have "R w (snd (catch (send_command_body c)
             (\<lambda>e. if e = SerialTimeoutException then return None else return None) w))"
      by (simp add: preserves_def)
    moreover from R(1) have "R w w" by (simp add: reflp_def)
    ultimately show "R w (snd (send_command c w))"
      by (simp add: send_command_def split: option.splits)
  qed
qed

lemma preserves_get_pressure:
  assumes R: "reflp R" "transp R"
    and p: "\<And>d. preserves R (connection_write d)" "preserves R connection_read_until"
      "preserves R (sleep (1 / 10))"
  shows "preserves R (get_pressure sensor)"
proof -
  have b: "preserves R (bindS (send_command (''PR'' @ str_int sensor)) (\<lambda>response.
                 case response of
                   None \<Rightarrow> return None
                 | Some r \<Rightarrow> if r \<noteq> [] then bindS (lift (py_float r)) (\<lambda>x. return (Some x))
                             else return None))"
    by (intro preserves_structure R preserves_send_command p)
  show ?thesis
    unfolding preserves_def
  proof
    fix w
    from b have "R w (snd (bindS (send_command (''PR'' @ str_int sensor)) (\<lambda>response.
                 case response of
                   None \<Rightarrow> return None
                 | Some r \<Rightarrow> if r \<noteq> [] then bindS (lift (py_float r)) (\<lambda>x. return (Some x))
                             else return None) w))"
      by (simp add: preserves_def)
    moreover from R(1) have "R w w" by (simp add: reflp_def)
    ultimately show "R w (snd (get_pressure sensor w))"
      by (simp add: get_pressure_def split: option.splits)
  qed
qed

lemma preserves_read_values:
  assumes R: "reflp R" "transp R"
    and p: "\<And>d. preserves R (connection_write d)" "preserves R connection_read_until"
      "preserves R (sleep (1 / 10))"
    and q: "preserves R (device_write [CHR ''R'', CHR ''C'', CHR 0x0D])"
      "preserves R device_read_all"
      "preserves R (sleep (4 / 5))"
      "\<And>d. preserves R (show_dialog d)" "\<And>n c. preserves R (after n c)"
      "\<And>r x. preserves R (append_reading r x)"
  shows "preserves R (read_values force_read)"
  unfolding read_values_def read_values_body_def Let_def
  by (intro preserves_structure R preserves_get_pressure p q)


text \<open>The clock never runs backwards.\<close>

definition later :: "world \<Rightarrow> world \<Rightarrow> bool" where
  "later w w' = (clock w \<le> clock w')"

lemma later_refl: "reflp later"
  by (simp add: reflp_def later_def)

lemma later_trans: "transp later"
  by (auto simp: transp_def later_def)

lemma later_sleep: "0 \<le> d \<Longrightarrow> preserves later (sleep d)"
  by (simp add: preserves_def sleep_def modify_def later_def)

lemma later_ports:
  "preserves later (connection_write d)" "preserves later connection_read_until"
  "preserves later (device_write d)" "preserves later device_read_all"
  by (auto simp: preserves_def later_def connection_write_def connection_read_until_def
      device_write_def device_read_all_def split: option.splits sum.splits prod.splits)

lemma later_widgets:
  "preserves later (show_dialog x)" "preserves later (after n c)"
  by (simp_all add: preserves_def later_def show_dialog_def after_def modify_def)

lemma later_append_reading: "preserves later (append_reading r x)"
  unfolding append_reading_def Let_def
  by (intro preserves_structure preserves_modify later_refl later_trans) (simp_all add: later_def)

lemma later_read_values: "clock w \<le> clock (snd (read_values force_read w))"
proof -
  have "preserves later (read_values force_read)"
    by (intro preserves_read_values later_refl later_trans later_ports later_widgets
        later_append_reading later_sleep) simp_all
  then show ?thesis by (simp add: preserves_def later_def)
qed

text \<open>
  \<open>while time.time() - start_time < duration: read_values(force_read=True);
  time.sleep(0.5)\<close>, for a finite duration.
\<close>

function collect :: "rat \<Rightarrow> rat \<Rightarrow> world \<Rightarrow> world" where
  "collect start duration w =
     (if clock w - start < duration
      then collect start duration (snd (sleep (1 / 2) (snd (read_values True w))))
      else w)"
  by pat_completeness auto
termination
proof (relation "measure (\<lambda>(start, duration, w). nat \<lceil>2 * (start + duration - clock w)\<rceil>)")
  fix start duration :: rat and w :: world
  assume a: "clock w - start < duration"
  let ?w' = "snd (sleep (1 / 2) (snd (read_values True w)))"
  have "clock w + 1 / 2 \<le> clock ?w'"
    using later_read_values [of w True] by (simp add: sleep_def modify_def)
  then have "2 * (start + duration - clock ?w') \<le> 2 * (start + duration - clock w) - 1"
    by simp
  then have "\<lceil>2 * (start + duration - clock ?w')\<rceil> \<le> \<lceil>2 * (start + duration - clock w)\<rceil> - 1"
    by (metis ceiling_mono ceiling_diff_one)
  moreover from a have "0 < \<lceil>2 * (start + duration - clock w)\<rceil>"
    by (simp add: ceiling_less_iff)
  ultimately show "((start, duration, ?w'), (start, duration, w))
       \<in> measure (\<lambda>(start, duration, w). nat \<lceil>2 * (start + duration - clock w)\<rceil>)"
    by simp
qed simp

text \<open>
  The loop for the duration read from an entry. With the duration \<open>inf\<close> the condition
  holds at every time and the loop does not end: the result is \<open>None\<close>. Against a NaN
  or \<open>-inf\<close> the condition fails at once.
\<close>

definition collect_for :: "pyfloat \<Rightarrow> world \<Rightarrow> world option" where
  "collect_for duration w =
     (case duration of
        Fin d \<Rightarrow> Some (collect (clock w) d w)
      | PInf \<Rightarrow> None
      | NInf \<Rightarrow> Some w
      | NaN \<Rightarrow> Some w)"

text \<open>
  One half of a period: the command, a pause, a read that clears the input, the label
  of the beam button, then the loop. The two halves of the body differ in the command,
  the label and the duration.
\<close>

definition beam_half ::
    "string \<Rightarrow> string \<Rightarrow> pyfloat \<Rightarrow> world \<Rightarrow> ((exn + unit) \<times> world) option" where
  "beam_half command label duration w =
     (case seq (device_write command)
          (seq (sleep (1 / 2))
          (bindS device_read_all (\<lambda>_.
           modify (\<lambda>w. w\<lparr>beam_button_text := label\<rparr>)))) w of
        (Inl e, w') \<Rightarrow> Some (Inl e, w')
      | (Inr _, w') \<Rightarrow>
          (case collect_for duration w' of
             None \<Rightarrow> None
           | Some w'' \<Rightarrow> Some (Inr (), w'')))"

text \<open>\<open>for i in range(periods)\<close>.\<close>

fun run_periods ::
    "nat \<Rightarrow> pyfloat \<Rightarrow> pyfloat \<Rightarrow> world \<Rightarrow> ((exn + unit) \<times> world) option" where
  "run_periods 0 on_time off_time w = Some (Inr (), w)"
| "run_periods (Suc n) on_time off_time w =
     (case beam_half [CHR ''B'', CHR ''1'', CHR 0x0D] ''Turn Beam Off'' on_time w of
        None \<Rightarrow> None
      | Some (Inl e, w1) \<Rightarrow> Some (Inl e, w1)
      | Some (Inr _, w1) \<Rightarrow>
          (case beam_half [CHR ''B'', CHR ''0'', CHR 0x0D] ''Turn Beam On'' off_time w1 of
             None \<Rightarrow> None
           | Some (Inl e, w2) \<Rightarrow> Some (Inl e, w2)
           | Some (Inr _, w2) \<Rightarrow> run_periods n on_time off_time w2))"

text \<open>
  The function, in two parts: the checks of device and source with the pause of the poll
  loop, and the rest of the \<open>try\<close> block, \<open>timed_sequence\<close>, from the reading of the
  entries on. \<open>sequence_failed\<close> is the handler. \<open>None\<close>: the function does not return.
\<close>

definition sequence_failed :: "exn \<Rightarrow> world \<Rightarrow> world" where
  "sequence_failed e w =
     snd (show_dialog (showerror_exn ''Error'' ''Failed to execute sequence: '' e) w)"

definition timed_sequence :: "world \<Rightarrow> world option" where
  "timed_sequence w1 =
     (case py_float (on_time_entry w1) of
        Inl e \<Rightarrow> Some (sequence_failed e w1)
      | Inr on_time \<Rightarrow>
     (case py_float (off_time_entry w1) of
        Inl e \<Rightarrow> Some (sequence_failed e w1)
      | Inr off_time \<Rightarrow>
     (case py_int (periods_entry w1) of
        Inl e \<Rightarrow> Some (sequence_failed e w1)
      | Inr periods \<Rightarrow>
          if le on_time (Fin 0) \<or> le off_time (Fin 0) \<or> periods \<le> 0 then
            Some (snd (show_dialog (showerror ''Error''
              ''All values must be positive numbers.'') w1))
          else
            (case run_periods (nat periods) on_time off_time w1 of
               None \<Rightarrow> None
             | Some (Inl e, w2) \<Rightarrow> Some (sequence_failed e w2)
             | Some (Inr _, w2) \<Rightarrow>
                 (let w3 = (if \<not> reading_active w2
                            then snd (read_values False (w2\<lparr>reading_active := True\<rparr>))
                            else w2)
                  in Some (snd (show_dialog (showinfo ''Sequence Complete''
                       ''The beam sequence has been completed.'') w3)))))))"

definition create_sequence :: "world \<Rightarrow> world option" where
  "create_sequence w =
     (case device_not_open w of
        (Inl e, w0) \<Rightarrow> Some (sequence_failed e w0)
      | (Inr True, w0) \<Rightarrow>
          Some (snd (show_dialog (showerror ''Error'' ''Device is not connected.'') w0))
      | (Inr False, w0) \<Rightarrow>
          if \<not> source_on w0 then
            Some (snd (show_dialog (showwarning ''Warning''
              ''The source must be turned on before starting the sequence.'') w0))
          else
            timed_sequence (if reading_active w0 then w0\<lparr>reading_active := False\<rparr> else w0))"

section \<open>A bench for the examples\<close>

text \<open>
  A bench for the examples: the source controller connected and silent, the source on,
  the poll loop idle, the sequence entries \<open>1\<close>, \<open>1\<close> and \<open>2\<close>, and a gauge that
  acknowledges the command and then sends \<open>reply\<close>.
\<close>

definition bench_port :: "string \<Rightarrow> serial" where
  "bench_port reply =
     \<lparr>is_open = True, written = [],
      incoming = [Inr (Text [CHR 0x06, CHR 0x0D, CHR 0x0A]), Inr (Text reply)]\<rparr>"

definition bench_gauge :: "string \<Rightarrow> MaxiGauge" where
  "bench_gauge reply =
     \<lparr>port = ''/dev/cu.usbserial-114410'', baudrate = 9600, timeout = 1,
      connection = Some (bench_port reply)\<rparr>"

definition bench :: "string \<Rightarrow> world" where
  "bench reply =
     \<lparr>clock = 0,
      device = Some \<lparr>is_open = True, written = [], incoming = []\<rparr>,
      maxigauge = Some (bench_gauge reply),
      source_on = True, reading_active = False, beam_on = False, start_time = None,
      timestamps = [], discharge_currents = [], beam_currents = [], pressure = [],
      pressure_entry = Literal [],
      source_button = NORMAL, source_button_text = ''Turn Source Off'',
      beam_button = NORMAL, beam_button_text = ''Turn Beam On'',
      reading_button_text = ''Start Reading Values'',
      on_time_entry = ''1'', off_time_entry = ''1'', periods_entry = ''2'',
      dialogs = [], timers = []\<rparr>"

definition reply_in_band :: string where
  "reply_in_band = ''0,5.0000E-04'' @ [CHR 0x0D, CHR 0x0A]"

definition reply_above_band :: string where
  "reply_above_band = ''0,2.0000E-03'' @ [CHR 0x0D, CHR 0x0A]"

section \<open>Properties of the parsers\<close>

lemma py_float_raises: "py_float s = Inl e \<Longrightarrow> e = ValueError"
  by (auto simp: py_float_def Let_def split: if_splits prod.splits option.splits)

lemma py_int_raises: "py_int s = Inl e \<Longrightarrow> e = ValueError"
  by (auto simp: py_int_def Let_def split: if_splits prod.splits)

lemma safe_float_total: "\<exists>x. safe_float s = Inr x"
  by (auto simp: safe_float_def Let_def split: sum.splits dest: py_float_raises)

lemma bindE_float_at: "bindE (float_at vs i) f = f (projr (float_at vs i))"
proof -
  obtain x where "float_at vs i = Inr x"
    using safe_float_total [of "vs ! i"] by (cases "i < length vs") (auto simp: float_at_def)
  then show ?thesis by (simp add: bindE_def)
qed

lemma float_at_missing: "length vs \<le> i \<Longrightarrow> projr (float_at vs i) = Fin 0"
  by (simp add: float_at_def)

text \<open>The eleven conversions by \<open>safe_float\<close> never leave the \<open>try\<close> block.\<close>

lemma parse_reading_body_eq:
  "parse_reading_body data =
     bindE (error_code_at (values_of data)) (\<lambda>v11.
     bindE (mode_at (values_of data)) (\<lambda>v12.
     Inr [(''Cathode Current (A)'', PFloat (projr (float_at (values_of data) 0))),
      (''Discharge Current (A)'', PFloat (projr (float_at (values_of data) 1))),
      (''Discharge Voltage (V)'', PFloat (projr (float_at (values_of data) 2))),
      (''Beam Current (mA)'', PFloat (projr (float_at (values_of data) 3))),
      (''Beam Voltage (V)'', PFloat (projr (float_at (values_of data) 4))),
      (''Accelerator Current (mA)'', PFloat (projr (float_at (values_of data) 5))),
      (''Accelerator Voltage (V)'', PFloat (projr (float_at (values_of data) 6))),
      (''Emission Current (mA)'', PFloat (projr (float_at (values_of data) 7))),
      (''Neutralizer Filament Current (A)'', PFloat (projr (float_at (values_of data) 8))),
      (''HC Keeper Voltage (V)'', PFloat (projr (float_at (values_of data) 9))),
      (''HCN Keeper Voltage (V)'', PFloat (projr (float_at (values_of data) 10))),
      (''Fatal Error Code'', v11),
      (''Power Supply Mode'', v12)]))"
  unfolding parse_reading_body_def Let_def bindE_float_at ..

lemma parse_reading_Some:
  assumes "parse_reading data = Inr (Some r)"
  obtains c m where "error_code_at (values_of data) = Inr c"
    and "mode_at (values_of data) = Inr m"
    and "r = [(''Cathode Current (A)'', PFloat (projr (float_at (values_of data) 0))),
      (''Discharge Current (A)'', PFloat (projr (float_at (values_of data) 1))),
      (''Discharge Voltage (V)'', PFloat (projr (float_at (values_of data) 2))),
      (''Beam Current (mA)'', PFloat (projr (float_at (values_of data) 3))),
      (''Beam Voltage (V)'', PFloat (projr (float_at (values_of data) 4))),
      (''Accelerator Current (mA)'', PFloat (projr (float_at (values_of data) 5))),
      (''Accelerator Voltage (V)'', PFloat (projr (float_at (values_of data) 6))),
      (''Emission Current (mA)'', PFloat (projr (float_at (values_of data) 7))),
      (''Neutralizer Filament Current (A)'', PFloat (projr (float_at (values_of data) 8))),
      (''HC Keeper Voltage (V)'', PFloat (projr (float_at (values_of data) 9))),
      (''HCN Keeper Voltage (V)'', PFloat (projr (float_at (values_of data) 10))),
      (''Fatal Error Code'', c),
      (''Power Supply Mode'', m)]"
proof -
  from assms obtain c where c: "error_code_at (values_of data) = Inr c"
    by (cases "error_code_at (values_of data)")
       (auto simp: parse_reading_def parse_reading_body_eq bindE_def split: if_splits)
  with assms obtain m where m: "mode_at (values_of data) = Inr m"
    by (cases "mode_at (values_of data)")
       (auto simp: parse_reading_def parse_reading_body_eq bindE_def split: if_splits)
  from assms c m have "r = [(''Cathode Current (A)'', PFloat (projr (float_at (values_of data) 0))),
      (''Discharge Current (A)'', PFloat (projr (float_at (values_of data) 1))),
      (''Discharge Voltage (V)'', PFloat (projr (float_at (values_of data) 2))),
      (''Beam Current (mA)'', PFloat (projr (float_at (values_of data) 3))),
      (''Beam Voltage (V)'', PFloat (projr (float_at (values_of data) 4))),
      (''Accelerator Current (mA)'', PFloat (projr (float_at (values_of data) 5))),
      (''Accelerator Voltage (V)'', PFloat (projr (float_at (values_of data) 6))),
      (''Emission Current (mA)'', PFloat (projr (float_at (values_of data) 7))),
      (''Neutralizer Filament Current (A)'', PFloat (projr (float_at (values_of data) 8))),
      (''HC Keeper Voltage (V)'', PFloat (projr (float_at (values_of data) 9))),
      (''HCN Keeper Voltage (V)'', PFloat (projr (float_at (values_of data) 10))),
      (''Fatal Error Code'', c),
      (''Power Supply Mode'', m)]"
    by (simp add: parse_reading_def parse_reading_body_eq bindE_def)
  with c m that show thesis by blast
qed

lemma getitem_float_key:
  assumes "i < 11"
  shows "getitem [(''Cathode Current (A)'', PFloat (x 0)),
          (''Discharge Current (A)'', PFloat (x 1)),
          (''Discharge Voltage (V)'', PFloat (x 2)),
          (''Beam Current (mA)'', PFloat (x 3)),
          (''Beam Voltage (V)'', PFloat (x 4)),
          (''Accelerator Current (mA)'', PFloat (x 5)),
          (''Accelerator Voltage (V)'', PFloat (x 6)),
          (''Emission Current (mA)'', PFloat (x 7)),
          (''Neutralizer Filament Current (A)'', PFloat (x 8)),
          (''HC Keeper Voltage (V)'', PFloat (x 9)),
          (''HCN Keeper Voltage (V)'', PFloat (x 10)),
          (''Fatal Error Code'', c),
          (''Power Supply Mode'', m)] (float_keys ! i) = Inr (PFloat (x i))"
proof -
  from assms have "i = 0 \<or> i = 1 \<or> i = 2 \<or> i = 3 \<or> i = 4 \<or> i = 5 \<or> i = 6 \<or> i = 7
      \<or> i = 8 \<or> i = 9 \<or> i = 10" by arith
  then show ?thesis
    by (elim disjE) (simp_all add: getitem_def float_keys_def)
qed

lemma reading_float_default:
  assumes "parse_reading data = Inr (Some r)" and "i < 11" and "length (values_of data) \<le> i"
  shows "getitem r (float_keys ! i) = Inr (PFloat (Fin 0))"
proof -
  from assms(1) obtain c m where r: "r = [(''Cathode Current (A)'', PFloat (projr (float_at (values_of data) 0))),
      (''Discharge Current (A)'', PFloat (projr (float_at (values_of data) 1))),
      (''Discharge Voltage (V)'', PFloat (projr (float_at (values_of data) 2))),
      (''Beam Current (mA)'', PFloat (projr (float_at (values_of data) 3))),
      (''Beam Voltage (V)'', PFloat (projr (float_at (values_of data) 4))),
      (''Accelerator Current (mA)'', PFloat (projr (float_at (values_of data) 5))),
      (''Accelerator Voltage (V)'', PFloat (projr (float_at (values_of data) 6))),
      (''Emission Current (mA)'', PFloat (projr (float_at (values_of data) 7))),
      (''Neutralizer Filament Current (A)'', PFloat (projr (float_at (values_of data) 8))),
      (''HC Keeper Voltage (V)'', PFloat (projr (float_at (values_of data) 9))),
      (''HCN Keeper Voltage (V)'', PFloat (projr (float_at (values_of data) 10))),
      (''Fatal Error Code'', c),
      (''Power Supply Mode'', m)]"
    by (rule parse_reading_Some)
  have "getitem r (float_keys ! i) = Inr (PFloat (projr (float_at (values_of data) i)))"
    unfolding r
    using getitem_float_key [OF assms(2), of "\<lambda>i. projr (float_at (values_of data) i)" c m]
    by simp
  with assms(3) show ?thesis by (simp add: float_at_missing)
qed

lemma reading_code_default:
  assumes "parse_reading data = Inr (Some r)" and "length (values_of data) \<le> 11"
  shows "getitem r ''Fatal Error Code'' = Inr (PInt 0)"
proof -
  from assms(1) obtain c m where c: "error_code_at (values_of data) = Inr c"
    and r: "r = [(''Cathode Current (A)'', PFloat (projr (float_at (values_of data) 0))),
      (''Discharge Current (A)'', PFloat (projr (float_at (values_of data) 1))),
      (''Discharge Voltage (V)'', PFloat (projr (float_at (values_of data) 2))),
      (''Beam Current (mA)'', PFloat (projr (float_at (values_of data) 3))),
      (''Beam Voltage (V)'', PFloat (projr (float_at (values_of data) 4))),
      (''Accelerator Current (mA)'', PFloat (projr (float_at (values_of data) 5))),
      (''Accelerator Voltage (V)'', PFloat (projr (float_at (values_of data) 6))),
      (''Emission Current (mA)'', PFloat (projr (float_at (values_of data) 7))),
      (''Neutralizer Filament Current (A)'', PFloat (projr (float_at (values_of data) 8))),
      (''HC Keeper Voltage (V)'', PFloat (projr (float_at (values_of data) 9))),
      (''HCN Keeper Voltage (V)'', PFloat (projr (float_at (values_of data) 10))),
      (''Fatal Error Code'', c),
      (''Power Supply Mode'', m)]"
    by (rule parse_reading_Some)
  from c assms(2) have "c = PInt 0" by (simp add: error_code_at_def)
  then show ?thesis unfolding r by (simp add: getitem_def)
qed

lemma reading_mode_default:
  assumes "parse_reading data = Inr (Some r)"
    and "length (values_of data) \<le> 12 \<or> values_of data ! 12 = []"
  shows "getitem r ''Power Supply Mode'' = Inr (PStr ''Unknown'')"
proof -
  from assms(1) obtain c m where m: "mode_at (values_of data) = Inr m"
    and r: "r = [(''Cathode Current (A)'', PFloat (projr (float_at (values_of data) 0))),
      (''Discharge Current (A)'', PFloat (projr (float_at (values_of data) 1))),
      (''Discharge Voltage (V)'', PFloat (projr (float_at (values_of data) 2))),
      (''Beam Current (mA)'', PFloat (projr (float_at (values_of data) 3))),
      (''Beam Voltage (V)'', PFloat (projr (float_at (values_of data) 4))),
      (''Accelerator Current (mA)'', PFloat (projr (float_at (values_of data) 5))),
      (''Accelerator Voltage (V)'', PFloat (projr (float_at (values_of data) 6))),
      (''Emission Current (mA)'', PFloat (projr (float_at (values_of data) 7))),
      (''Neutralizer Filament Current (A)'', PFloat (projr (float_at (values_of data) 8))),
      (''HC Keeper Voltage (V)'', PFloat (projr (float_at (values_of data) 9))),
      (''HCN Keeper Voltage (V)'', PFloat (projr (float_at (values_of data) 10))),
      (''Fatal Error Code'', c),
      (''Power Supply Mode'', m)]"
    by (rule parse_reading_Some)
  from m assms(2) have "m = PStr ''Unknown''" by (auto simp: mode_at_def)
  then show ?thesis unfolding r by (simp add: getitem_def)
qed

text \<open>A string of ASCII digits within the limit converts.\<close>

lemma strip_by_none: "list_all (\<lambda>c. \<not> P c) s \<Longrightarrow> strip_by P s = s"
proof -
  assume a: "list_all (\<lambda>c. \<not> P c) s"
  have d: "\<And>xs. list_all (\<lambda>c. \<not> P c) xs \<Longrightarrow> dropWhile P xs = xs"
    by (case_tac xs) auto
  from a have "list_all (\<lambda>c. \<not> P c) (rev s)" by (simp add: list_all_iff)
  with a d show ?thesis by (simp add: strip_by_def)
qed

lemma code_of_marks: "code (CHR ''_'') = 95" "code (CHR ''-'') = 45" "code (CHR ''+'') = 43"
  by (simp_all add: code_def)

lemma digit_not_special:
  "is_digit c \<Longrightarrow> \<not> isspace_num c \<and> c \<noteq> CHR ''_'' \<and> c \<noteq> CHR ''-'' \<and> c \<noteq> CHR ''+''"
  using code_of_marks by (auto simp: is_digit_def isspace_num_def)

lemma underscores_ok_digits:
  "list_all is_digit s \<Longrightarrow> prev \<noteq> CHR ''_'' \<Longrightarrow> underscores_ok prev s"
  by (induction s arbitrary: prev) (auto dest: digit_not_special)

lemma py_int_digits:
  assumes "s \<noteq> []" and "list_all is_digit s" and "length s \<le> int_max_str_digits"
  shows "py_int s = Inr (digits_val s)"
proof -
  from assms(2) have n: "list_all (\<lambda>c. \<not> isspace_num c) s"
    by (induction s) (auto dest: digit_not_special)
  from assms(2) have u: "filter (\<lambda>c. c \<noteq> CHR ''_'') s = s"
    by (induction s) (auto dest: digit_not_special)
  from assms(1,2) have sg: "split_sign s = (False, s)"
    by (cases s) (auto simp: split_sign_def dest: digit_not_special)
  have ok: "underscores_ok (CHR 0x00) s"
    using assms(2) by (rule underscores_ok_digits) simp
  from assms(1,2,3) show ?thesis
    unfolding py_int_def strip_by_none [OF n] Let_def u sg by (simp add: ok)
qed

lemma isdigit_ascii:
  "isdigit s \<Longrightarrow> list_all (\<lambda>c. code c \<notin> {178, 179, 185}) s \<Longrightarrow> s \<noteq> [] \<and> list_all is_digit s"
  by (auto simp: isdigit_def list_all_iff)

lemma parse_reading_short:
  assumes a1: "length (values_of data) < 13"
    and a2: "length (values_of data) = 12 \<and> isdigit (values_of data ! 11) \<longrightarrow>
         list_all (\<lambda>c. code c \<notin> {178, 179, 185}) (values_of data ! 11)
         \<and> length (values_of data ! 11) \<le> int_max_str_digits"
  shows "\<exists>r. parse_reading data = Inr (Some r)"
proof -
  let ?vs = "values_of data"
  have "\<exists>c. error_code_at ?vs = Inr c"
  proof (cases "11 < length ?vs \<and> isdigit (?vs ! 11)")
    case True
    then have d: "isdigit (?vs ! 11)" by (rule conjunct2)
    from True a1 have "length ?vs = 12" by arith
    with a2 d have n: "list_all (\<lambda>c. code c \<notin> {178, 179, 185}) (?vs ! 11)"
      and l: "length (?vs ! 11) \<le> int_max_str_digits"
      by blast+
    from isdigit_ascii [OF d n] l have "py_int (?vs ! 11) = Inr (digits_val (?vs ! 11))"
      by (intro py_int_digits) simp_all
    with True show ?thesis by (simp add: error_code_at_def bindE_def)
  next
    case False
    then show ?thesis by (simp only: error_code_at_def if_False) blast
  qed
  then obtain c where c: "error_code_at ?vs = Inr c" ..
  from a1 have m: "mode_at ?vs = Inr (PStr ''Unknown'')"
    by (simp add: mode_at_def)
  from c m show ?thesis
    by (simp add: parse_reading_def parse_reading_body_eq bindE_def)
qed

text \<open>\<open>parse_rh_reading\<close> reads ten fields and meets its handler when one is missing.\<close>

definition caught :: "exn \<Rightarrow> bool" where
  "caught e = (e = IndexError \<or> e = ValueError)"

lemma float_of_caught: "float_of vs i = Inl e \<Longrightarrow> caught e"
  by (auto simp: float_of_def bindE_def index_def caught_def split: if_splits sum.splits
      dest: py_float_raises)

lemma int_of_caught: "int_of vs i = Inl e \<Longrightarrow> caught e"
  by (auto simp: int_of_def bindE_def index_def caught_def split: if_splits sum.splits
      dest: py_int_raises)

lemma index_caught: "index vs i = Inl e \<Longrightarrow> caught e"
  by (auto simp: index_def caught_def split: if_splits)

lemma bindE_caught:
  assumes "\<And>e. m = Inl e \<Longrightarrow> caught e"
    and "\<And>x. m = Inr x \<Longrightarrow> \<exists>e. f x = Inl e \<and> caught e"
  shows "\<exists>e. bindE m f = Inl e \<and> caught e"
  using assms by (cases m) (auto simp: bindE_def)

lemma parse_rh_reading_short:
  assumes "length (rh_values_of data) < 10"
  shows "parse_rh_reading data = Inr None"
proof -
  from assms have "float_of (rh_values_of data) 9 = Inl IndexError"
    by (simp add: float_of_def index_def bindE_def)
  then have last: "\<And>f. \<exists>e. bindE (float_of (rh_values_of data) 9) f = Inl e \<and> caught e"
    by (simp add: bindE_def caught_def)
  have "\<exists>e. parse_rh_reading_body data = Inl e \<and> caught e"
    unfolding parse_rh_reading_body_def Let_def
    by (intro bindE_caught last; (erule index_caught float_of_caught int_of_caught)?)
  then show ?thesis
    by (auto simp: parse_rh_reading_def caught_def)
qed

text \<open>Two sample lines, evaluated.\<close>

lemma values_of_two: "values_of ''1.5,2.5'' = [''1.5'', ''2.5'']"
  by code_simp

lemma parse_reading_two:
  "parse_reading ''1.5,2.5'' = Inr (Some
     [(''Cathode Current (A)'', PFloat (Fin (3 / 2))),
      (''Discharge Current (A)'', PFloat (Fin (5 / 2))),
      (''Discharge Voltage (V)'', PFloat (Fin 0)),
      (''Beam Current (mA)'', PFloat (Fin 0)),
      (''Beam Voltage (V)'', PFloat (Fin 0)),
      (''Accelerator Current (mA)'', PFloat (Fin 0)),
      (''Accelerator Voltage (V)'', PFloat (Fin 0)),
      (''Emission Current (mA)'', PFloat (Fin 0)),
      (''Neutralizer Filament Current (A)'', PFloat (Fin 0)),
      (''HC Keeper Voltage (V)'', PFloat (Fin 0)),
      (''HCN Keeper Voltage (V)'', PFloat (Fin 0)),
      (''Fatal Error Code'', PInt 0),
      (''Power Supply Mode'', PStr ''Unknown'')])"
proof -
  have f0: "safe_float ''1.5'' = Inr (Fin (3 / 2))" by code_simp
  have f1: "safe_float ''2.5'' = Inr (Fin (5 / 2))" by code_simp
  show ?thesis
    by (simp add: parse_reading_def parse_reading_body_eq values_of_two float_at_def
        error_code_at_def mode_at_def bindE_def f0 f1)
qed

lemma rh_values_of_three: "rh_values_of ''12:00:00 1.5 2.5'' = [''12:00:00'', ''1.5'', ''2.5'']"
  by code_simp

section \<open>Properties of the gauge and of the bench\<close>



lemma send_command_reply:
  assumes "maxigauge w = Some g" and "connection g = Some c" and "is_open c"
    and "incoming c = Inr x # Inr (Text s) # rest"
  shows "fst (send_command command w) =
         Inr (if 1 < length (split (CHR '','') (strip s))
              then Some (split (CHR '','') (strip s) ! 1) else None)"
  using assms
  by (simp add: send_command_def send_command_body_def catch_def seq_def bindS_def
      connection_write_def connection_read_until_def ser_write_def ser_read_def sleep_def
      modify_def lift_def decode_def index_def return_def)


lemma get_pressure_of_None:
  assumes "maxigauge w \<noteq> None" and "fst (send_command (''PR'' @ str_int 3) w) = Inr None"
  shows "fst (get_pressure 3 w) = Inr None"
  using assms
  by (auto simp: get_pressure_def bindS_def return_def split: option.splits prod.splits sum.splits)

lemma get_pressure_of_Some:
  assumes "\<not> gauge_not_connected w"
    and "fst (send_command (''PR'' @ str_int 3) w) = Inr (Some r)" and "r \<noteq> []"
    and "py_float r = Inr x"
  shows "fst (get_pressure 3 w) = Inr (Some x)"
  using assms
  by (auto simp: get_pressure_def gauge_not_connected_def bindS_def return_def lift_def
      split: option.splits prod.splits sum.splits)

lemma bench_gauge_facts:
  "maxigauge (bench reply) = Some (bench_gauge reply)"
  "connection (bench_gauge reply) = Some (bench_port reply)"
  "is_open (bench_port reply)"
  "incoming (bench_port reply) = [Inr (Text [CHR 0x06, CHR 0x0D, CHR 0x0A]), Inr (Text reply)]"
  "\<not> gauge_not_connected (bench reply)"
  by (simp_all add: bench_def bench_gauge_def bench_port_def gauge_not_connected_def)

lemma fields_in_band: "split (CHR '','') (strip reply_in_band) = [''0'', ''5.0000E-04'']"
  by code_simp

lemma fields_above_band: "split (CHR '','') (strip reply_above_band) = [''0'', ''2.0000E-03'']"
  by code_simp

lemma float_in_band:
  "py_float ''5.0000E-04'' = Inr (projr (py_float ''5.0000E-04''))"
  "le pressure_low (projr (py_float ''5.0000E-04''))"
  "le (projr (py_float ''5.0000E-04'')) pressure_high"
  by code_simp+

lemma float_above_band:
  "py_float ''2.0000E-03'' = Inr (projr (py_float ''2.0000E-03''))"
  "\<not> le (projr (py_float ''2.0000E-03'')) pressure_high"
  by code_simp+

lemma fields_unreadable: "split (CHR '','') (strip ''?'') = [''?'']"
  by code_simp

lemma str_int_3: "str_int 3 = ''3''"
  by code_simp

lemma bench_send_command:
  "fst (send_command command (bench reply)) =
     Inr (if 1 < length (split (CHR '','') (strip reply))
          then Some (split (CHR '','') (strip reply) ! 1) else None)"
  by (rule send_command_reply [OF bench_gauge_facts(1,2,3,4)])

lemma bench_get_pressure:
  "fst (get_pressure 3 (bench reply_in_band)) = Inr (Some (projr (py_float ''5.0000E-04'')))"
  "fst (get_pressure 3 (bench reply_above_band)) = Inr (Some (projr (py_float ''2.0000E-03'')))"
  by (rule get_pressure_of_Some;
      simp add: bench_gauge_facts str_int_3 bench_send_command fields_in_band fields_above_band
        float_in_band(1) [symmetric] float_above_band(1) [symmetric])+

section \<open>The claims\<close>

text \<open>
  C2, as amended. \<open>parse_reading\<close> returns a Reading for every response of fewer than
  thirteen fields whose twelfth field, when it is present and \<open>isdigit\<close> accepts it, is
  made of at most 4300 ASCII digits; in that Reading every missing field among the first
  twelve is zero and the power supply mode is the string \<open>Unknown\<close>.
  \<open>parse_rh_reading\<close> returns \<open>None\<close>, no Reading, for every response of fewer than ten
  fields.
\<close>

theorem short_response_defaults:
  "(length (values_of data) < 13 \<and>
      (length (values_of data) = 12 \<and> isdigit (values_of data ! 11) \<longrightarrow>
         list_all (\<lambda>c. code c \<notin> {178, 179, 185}) (values_of data ! 11)
         \<and> length (values_of data ! 11) \<le> int_max_str_digits) \<longrightarrow>
      (\<exists>r. parse_reading data = Inr (Some r)
         \<and> (\<forall>i<11. length (values_of data) \<le> i \<longrightarrow>
                getitem r (float_keys ! i) = Inr (PFloat (Fin 0)))
         \<and> (length (values_of data) \<le> 11 \<longrightarrow> getitem r ''Fatal Error Code'' = Inr (PInt 0))
         \<and> getitem r ''Power Supply Mode'' = Inr (PStr ''Unknown'')))
   \<and> (length (rh_values_of line) < 10 \<longrightarrow> parse_rh_reading line = Inr None)"
proof (intro conjI impI)
  assume a: "length (values_of data) < 13 \<and>
      (length (values_of data) = 12 \<and> isdigit (values_of data ! 11) \<longrightarrow>
         list_all (\<lambda>c. code c \<notin> {178, 179, 185}) (values_of data ! 11)
         \<and> length (values_of data ! 11) \<le> int_max_str_digits)"
  then have a1: "length (values_of data) < 13" by (rule conjunct1)
  from a have "\<exists>r. parse_reading data = Inr (Some r)"
    by (intro parse_reading_short) (erule conjunct1, erule conjunct2)
  then obtain r where r: "parse_reading data = Inr (Some r)" ..
  from a1 have "length (values_of data) \<le> 12 \<or> values_of data ! 12 = []" by simp
  with r have "getitem r ''Power Supply Mode'' = Inr (PStr ''Unknown'')"
    by (rule reading_mode_default)
  with r show "\<exists>r. parse_reading data = Inr (Some r)
         \<and> (\<forall>i<11. length (values_of data) \<le> i \<longrightarrow>
                getitem r (float_keys ! i) = Inr (PFloat (Fin 0)))
         \<and> (length (values_of data) \<le> 11 \<longrightarrow> getitem r ''Fatal Error Code'' = Inr (PInt 0))
         \<and> getitem r ''Power Supply Mode'' = Inr (PStr ''Unknown'')"
    by (intro exI [of _ r] conjI allI impI)
       (simp_all only: reading_float_default reading_code_default)
next
  assume "length (rh_values_of line) < 10"
  then show "parse_rh_reading line = Inr None" by (rule parse_rh_reading_short)
qed

theorem short_response_defaults_witness:
  "length (values_of ''1.5,2.5'') < 13
   \<and> (\<exists>r. parse_reading ''1.5,2.5'' = Inr (Some r)
        \<and> getitem r ''Discharge Voltage (V)'' = Inr (PFloat (Fin 0))
        \<and> getitem r ''Fatal Error Code'' = Inr (PInt 0)
        \<and> getitem r ''Power Supply Mode'' = Inr (PStr ''Unknown''))
   \<and> length (rh_values_of ''12:00:00 1.5 2.5'') < 10
   \<and> parse_rh_reading ''12:00:00 1.5 2.5'' = Inr None"
proof -
  let ?vs = "values_of ''1.5,2.5''"
  have l: "length ?vs = 2"
    by (simp add: values_of_two)
  then have h1: "length ?vs < 13 \<and>
      (length ?vs = 12 \<and> isdigit (?vs ! 11) \<longrightarrow>
         list_all (\<lambda>c. code c \<notin> {178, 179, 185}) (?vs ! 11)
         \<and> length (?vs ! 11) \<le> int_max_str_digits)"
    by simp
  have h2: "length (rh_values_of ''12:00:00 1.5 2.5'') < 10"
    by (simp add: rh_values_of_three)
  from short_response_defaults [of "''1.5,2.5''" "''12:00:00 1.5 2.5''"] h1 h2
  obtain r where r: "parse_reading ''1.5,2.5'' = Inr (Some r)"
    and z: "\<forall>i<11. length ?vs \<le> i \<longrightarrow> getitem r (float_keys ! i) = Inr (PFloat (Fin 0))"
    and c: "length ?vs \<le> 11 \<longrightarrow> getitem r ''Fatal Error Code'' = Inr (PInt 0)"
    and m: "getitem r ''Power Supply Mode'' = Inr (PStr ''Unknown'')"
    and n: "parse_rh_reading ''12:00:00 1.5 2.5'' = Inr None"
    by blast
  from z [rule_format, of 2] l have "getitem r (float_keys ! 2) = Inr (PFloat (Fin 0))"
    by simp
  then have "getitem r ''Discharge Voltage (V)'' = Inr (PFloat (Fin 0))"
    by (simp add: float_keys_def)
  moreover from c l have "getitem r ''Fatal Error Code'' = Inr (PInt 0)"
    by simp
  ultimately show ?thesis
    using r m n h1 h2 by blast
qed

text \<open>
  The claim as it is written fails for \<open>parse_rh_reading\<close>: a line of three fields gives
  no Reading.
\<close>

theorem short_response_counterexample:
  "length (rh_values_of ''12:00:00 1.5 2.5'') < 10
   \<and> parse_rh_reading ''12:00:00 1.5 2.5'' = Inr None"
proof -
  have "index [''12:00:00'', ''1.5'', ''2.5''] 3 = Inl IndexError"
    by (simp add: index_def)
  moreover have "\<exists>x. float_of [''12:00:00'', ''1.5'', ''2.5''] 1 = Inr x"
  proof -
    have "py_float ''1.5'' = Inr (Fin (3 / 2))" by code_simp
    then show ?thesis by (simp add: float_of_def index_def bindE_def)
  qed
  moreover have "\<exists>x. float_of [''12:00:00'', ''1.5'', ''2.5''] 2 = Inr x"
  proof -
    have "py_float ''2.5'' = Inr (Fin (5 / 2))" by code_simp
    then show ?thesis by (simp add: float_of_def index_def bindE_def)
  qed
  ultimately have "parse_rh_reading_body ''12:00:00 1.5 2.5'' = Inl IndexError"
    unfolding parse_rh_reading_body_def rh_values_of_three Let_def
    by (auto simp: bindE_def index_def float_of_def)
  then show ?thesis
    by (simp add: parse_rh_reading_def rh_values_of_three)
qed

text \<open>
  C3. In \<open>parse_reading\<close>, whenever the thirteenth field is missing or empty, the
  returned Reading maps \<open>Power Supply Mode\<close> to the string \<open>Unknown\<close>, while every other
  missing field of that Reading is the number zero.
\<close>

theorem power_supply_mode_unknown:
  assumes "parse_reading data = Inr (Some r)"
    and "length (values_of data) \<le> 12 \<or> values_of data ! 12 = []"
  shows "getitem r ''Power Supply Mode'' = Inr (PStr ''Unknown'')
     \<and> (\<forall>i<11. length (values_of data) \<le> i \<longrightarrow>
            getitem r (float_keys ! i) = Inr (PFloat (Fin 0)))
     \<and> (length (values_of data) \<le> 11 \<longrightarrow> getitem r ''Fatal Error Code'' = Inr (PInt 0))"
  using assms
  by (intro conjI allI impI)
     (simp_all only: reading_mode_default reading_float_default reading_code_default)

theorem power_supply_mode_unknown_witness:
  "(length (values_of ''1.5,2.5'') \<le> 12 \<or> values_of ''1.5,2.5'' ! 12 = [])
   \<and> (\<exists>r. parse_reading ''1.5,2.5'' = Inr (Some r)
        \<and> getitem r ''Power Supply Mode'' = Inr (PStr ''Unknown'')
        \<and> getitem r ''Beam Current (mA)'' = Inr (PFloat (Fin 0))
        \<and> getitem r ''Fatal Error Code'' = Inr (PInt 0))"
proof -
  let ?vs = "values_of ''1.5,2.5''"
  have l: "length ?vs = 2"
    by (simp add: values_of_two)
  then have h: "length ?vs \<le> 12 \<or> ?vs ! 12 = []"
    by simp
  obtain r where r: "parse_reading ''1.5,2.5'' = Inr (Some r)"
    using parse_reading_two by blast
  from power_supply_mode_unknown [OF r h]
  have m: "getitem r ''Power Supply Mode'' = Inr (PStr ''Unknown'')"
    and z: "\<forall>i<11. length ?vs \<le> i \<longrightarrow> getitem r (float_keys ! i) = Inr (PFloat (Fin 0))"
    and c: "length ?vs \<le> 11 \<longrightarrow> getitem r ''Fatal Error Code'' = Inr (PInt 0)"
    by blast+
  from z [rule_format, of 3] l have "getitem r (float_keys ! 3) = Inr (PFloat (Fin 0))"
    by simp
  then have "getitem r ''Beam Current (mA)'' = Inr (PFloat (Fin 0))"
    by (simp add: float_keys_def)
  moreover from c l have "getitem r ''Fatal Error Code'' = Inr (PInt 0)"
    by simp
  ultimately show ?thesis
    using r m h by blast
qed

text \<open>
  C7. \<open>parse_reading\<close> on the compact line
  \<open>1.0,2.0,3.0,4.0,5.0,6.0,7.0,8.0,9.0,10.0,11.0,2,1\<close> returns a Reading with discharge
  current 2.0, beam current 4.0 and fatal error code 2.
\<close>

theorem parse_reading_compact_example:
  "\<exists>r. parse_reading ''1.0,2.0,3.0,4.0,5.0,6.0,7.0,8.0,9.0,10.0,11.0,2,1'' = Inr (Some r)
     \<and> getitem r ''Discharge Current (A)'' = Inr (PFloat (Fin 2))
     \<and> getitem r ''Beam Current (mA)'' = Inr (PFloat (Fin 4))
     \<and> getitem r ''Fatal Error Code'' = Inr (PInt 2)"
proof -
  have v: "values_of ''1.0,2.0,3.0,4.0,5.0,6.0,7.0,8.0,9.0,10.0,11.0,2,1'' =
      [''1.0'', ''2.0'', ''3.0'', ''4.0'', ''5.0'', ''6.0'', ''7.0'', ''8.0'', ''9.0'',
       ''10.0'', ''11.0'', ''2'', ''1'']"
    by code_simp
  have f1: "safe_float ''2.0'' = Inr (Fin 2)" by code_simp
  have f3: "safe_float ''4.0'' = Inr (Fin 4)" by code_simp
  have d: "isdigit ''2''" by code_simp
  have i11: "py_int ''2'' = Inr 2" by code_simp
  have i12: "py_int ''1'' = Inr 1" by code_simp
  show ?thesis
    by (simp add: parse_reading_def parse_reading_body_eq v float_at_def
        error_code_at_def mode_at_def bindE_def f1 f3 d i11 i12 getitem_def)
qed

text \<open>
  C8. For every field that begins with an exponent marker, \<open>E\<close> or \<open>e\<close>, the
  conversion \<open>safe_float\<close> gives the value it gives for the same field with the digit
  \<open>1\<close> put in front.
\<close>

theorem safe_float_exponent_marker:
  "startswith v ''E'' \<or> startswith v ''e'' \<Longrightarrow> safe_float v = safe_float (CHR ''1'' # v)"
  by (simp add: safe_float_def startswith_def)

theorem safe_float_exponent_marker_witness:
  "(startswith ''E3'' ''E'' \<or> startswith ''E3'' ''e'')
   \<and> safe_float ''E3'' = safe_float ''1E3'' \<and> safe_float ''E3'' = Inr (Fin 1000)"
proof -
  have h: "startswith ''E3'' ''E'' \<or> startswith ''E3'' ''e''"
    by (simp add: startswith_def)
  have e: "safe_float ''1E3'' = Inr (Fin 1000)"
    by code_simp
  from safe_float_exponent_marker [OF h] e h show ?thesis by simp
qed

text \<open>
  C1. In the interlock tick \<open>update_pressure\<close> the button of the source is enabled
  exactly when the pressure read from the gauge is a number in the band from \<open>3e-4\<close> to
  \<open>10e-4\<close>, the ends included; for a reading outside the band, for no reading, for a
  gauge that is missing or whose connection is missing or closed, and when
  \<open>get_pressure\<close> raises, the button is disabled.
\<close>

theorem pressure_interlock:
  "(gauge_not_connected w \<longrightarrow> source_button (snd (update_pressure w)) = DISABLED)
   \<and> (\<not> gauge_not_connected w \<and> fst (get_pressure 3 w) = Inr (Some x) \<longrightarrow>
        source_button (snd (update_pressure w)) =
          (if le pressure_low x \<and> le x pressure_high then NORMAL else DISABLED))
   \<and> (\<not> gauge_not_connected w \<and> fst (get_pressure 3 w) = Inr None \<longrightarrow>
        source_button (snd (update_pressure w)) = DISABLED)
   \<and> (\<not> gauge_not_connected w \<and> fst (get_pressure 3 w) = Inl e \<longrightarrow>
        source_button (snd (update_pressure w)) = DISABLED)"
  by (cases "get_pressure 3 w")
     (auto simp: update_pressure_def update_pressure_body_def catch_def bindS_def seq_def get_def
      return_def after_def modify_def set_pressure_entry_def set_source_button_def)


theorem pressure_interlock_witness:
  "\<not> gauge_not_connected (bench reply_in_band)
   \<and> source_button (snd (update_pressure (bench reply_in_band))) = NORMAL
   \<and> source_button (snd (update_pressure (bench reply_above_band))) = DISABLED
   \<and> fst (get_pressure 3 (bench ''?'')) = Inr None
   \<and> source_button (snd (update_pressure (bench ''?''))) = DISABLED
   \<and> gauge_not_connected ((bench ''?'')\<lparr>maxigauge := None\<rparr>)
   \<and> source_button (snd (update_pressure ((bench ''?'')\<lparr>maxigauge := None\<rparr>))) = DISABLED"
proof -
  have g: "\<And>r. \<not> gauge_not_connected (bench r)"
    by (rule bench_gauge_facts)
  have n: "gauge_not_connected ((bench ''?'')\<lparr>maxigauge := None\<rparr>)"
    by (simp add: gauge_not_connected_def)
  have q: "fst (get_pressure 3 (bench ''?'')) = Inr None"
    by (rule get_pressure_of_None)
       (simp_all add: bench_gauge_facts bench_send_command fields_unreadable)
  from pressure_interlock [of "bench reply_in_band" "projr (py_float ''5.0000E-04'')"]
    g bench_get_pressure(1) float_in_band(2,3)
  have 1: "source_button (snd (update_pressure (bench reply_in_band))) = NORMAL"
    by simp
  from pressure_interlock [of "bench reply_above_band" "projr (py_float ''2.0000E-03'')"]
    g bench_get_pressure(2) float_above_band(2)
  have 2: "source_button (snd (update_pressure (bench reply_above_band))) = DISABLED"
    by simp
  from pressure_interlock [of "bench ''?''"] g q
  have 3: "source_button (snd (update_pressure (bench ''?''))) = DISABLED"
    by blast
  from pressure_interlock [of "(bench ''?'')\<lparr>maxigauge := None\<rparr>"] n
  have 4: "source_button (snd (update_pressure ((bench ''?'')\<lparr>maxigauge := None\<rparr>))) = DISABLED"
    by blast
  from g 1 2 q 3 n 4 show ?thesis by blast
qed







end
